theory Spec2Isabelle
  imports Complex_Main "HOL-Library.Sublist"
begin

section \<open>Effects and outcomes\<close>

text \<open>
  Every function of the extension is asynchronous and talks to the outside world (the
  backend, the browser, a page). A program is modelled as a function from the history of
  effects performed so far to an outcome that carries the new effects in order.
  An outcome is one of: the promise resolved with a value (\<open>Done\<close>), it rejected with a
  message (\<open>Threw\<close>), or it never settles (\<open>Hung\<close>).
  The outside world is a record of oracles that answer from the history, so its answers
  may change as the program acts. Console output is not part of the trace.
\<close>

datatype ('e, 'a) outcome =
    Done 'a "'e list"
  | Threw string "'e list"
  | Hung "'e list"

type_synonym ('e, 'a) prog = "'e list \<Rightarrow> ('e, 'a) outcome"

fun effects :: "('e, 'a) outcome \<Rightarrow> 'e list" where
  "effects (Done a d) = d"
| "effects (Threw m d) = d"
| "effects (Hung d) = d"

fun prepend :: "'e list \<Rightarrow> ('e, 'a) outcome \<Rightarrow> ('e, 'a) outcome" where
  "prepend d (Done a d') = Done a (d @ d')"
| "prepend d (Threw m d') = Threw m (d @ d')"
| "prepend d (Hung d') = Hung (d @ d')"

definition ret :: "'a \<Rightarrow> ('e, 'a) prog" where
  "ret a h = Done a []"

definition throw :: "string \<Rightarrow> ('e, 'a) prog" where
  "throw m h = Threw m []"

definition emit :: "'e \<Rightarrow> ('e, unit) prog" where
  "emit e h = Done () [e]"

text \<open>\<open>await m\<close> followed by the rest of the function body.\<close>

definition andThen :: "('e, 'a) prog \<Rightarrow> ('a \<Rightarrow> ('e, 'b) prog) \<Rightarrow> ('e, 'b) prog" where
  "andThen m f h =
     (case m h of
        Done a d \<Rightarrow> prepend d (f a (h @ d))
      | Threw e d \<Rightarrow> Threw e d
      | Hung d \<Rightarrow> Hung d)"

text \<open>\<open>try { m } catch (e) { handler e }\<close>.\<close>

definition tryCatch :: "('e, 'a) prog \<Rightarrow> (string \<Rightarrow> ('e, 'a) prog) \<Rightarrow> ('e, 'a) prog" where
  "tryCatch m handler h =
     (case m h of
        Done a d \<Rightarrow> Done a d
      | Threw e d \<Rightarrow> prepend d (handler e (h @ d))
      | Hung d \<Rightarrow> Hung d)"

text \<open>
  \<open>new Promise(async (resolve) => { body })\<close>: the promise settles only through
  \<open>resolve\<close>. When the async executor rejects, nothing observes the rejection and the
  promise stays pending.
\<close>

definition newPromiseAsync :: "('e, 'a) prog \<Rightarrow> ('e, 'a) prog" where
  "newPromiseAsync body h =
     (case body h of
        Done a d \<Rightarrow> Done a d
      | Threw e d \<Rightarrow> Hung d
      | Hung d \<Rightarrow> Hung d)"

section \<open>Strings\<close>

text \<open>\<open>String.prototype.substring(start, end)\<close> and \<open>String.prototype.includes\<close>.\<close>

definition substring :: "string \<Rightarrow> nat \<Rightarrow> nat \<Rightarrow> string" where
  "substring s start end' =
     (let a = min start end'; b = max start end' in take (b - a) (drop a s))"

fun js_includes :: "string \<Rightarrow> string \<Rightarrow> bool" where
  "js_includes [] sub = (sub = [])"
| "js_includes (c # cs) sub = (take (length sub) (c # cs) = sub \<or> js_includes cs sub)"

section \<open>Background service worker: data\<close>

text \<open>
  A \<open>Date\<close> built from a JSON value is an instant (milliseconds) or an invalid date;
  every comparison with an invalid date is false.
\<close>

datatype js_date = Instant int | InvalidDate

fun date_gt :: "js_date \<Rightarrow> js_date \<Rightarrow> bool" where
  "date_gt (Instant a) (Instant b) = (a > b)"
| "date_gt _ _ = False"

text \<open>
  A queue item as the backend sends it. \<open>content\<close> is \<open>None\<close> when the JSON object has
  no string there (the code calls \<open>post.content.substring\<close>, which then raises a
  TypeError); \<open>scheduled_time\<close> is \<open>None\<close> when the field is absent or falsy.
\<close>

record post =
  post_id :: string
  content :: "string option"
  platform :: string
  scheduled_time :: "js_date option"

text \<open>What \<open>response.json()\<close> gives: not JSON at all, or an object whose \<open>posts\<close> field
  is a list or is missing.\<close>

datatype body = NotJson | PostsField "post list option"

datatype http_reply = NetworkFailure | HttpResponse bool body

record tab =
  tab_id :: nat
  tab_url :: string

text \<open>The two functions that the worker injects into a page.\<close>

datatype injected = AutoPostToX | AutoPostToLinkedIn

text \<open>
  \<open>chrome.scripting.executeScript\<close> rejects, or resolves with one entry per frame whose
  \<open>result\<close> is the boolean the injected function resolved with (\<open>None\<close>: no value).
\<close>

datatype exec_reply = ExecRejected | ExecResults "bool option list"

datatype reply_msg =
    ProcessReply bool "string option"
  | StatusReply "post list" nat

datatype event =
    Fetch string string http_reply
  | TabsQuery "string list" "tab list option"
  | TabsCreate string bool "tab option"
  | SetTimeout nat
  | ExecuteScript nat injected string exec_reply
  | NotificationCreate string string string string
  | SendResponse reply_msg

record env =
  fetch :: "event list \<Rightarrow> string \<Rightarrow> string \<Rightarrow> http_reply"
  tabs_query :: "event list \<Rightarrow> string list \<Rightarrow> tab list option"
  tabs_create :: "event list \<Rightarrow> string \<Rightarrow> bool \<Rightarrow> tab option"
  execute_script :: "event list \<Rightarrow> nat \<Rightarrow> injected \<Rightarrow> string \<Rightarrow> exec_reply"
  date_now :: "event list \<Rightarrow> int"

section \<open>Background service worker: API communication\<close>

definition API_BASE :: string where
  "API_BASE = ''http://localhost:8000/api/v1''"

definition USER_ID :: string where
  "USER_ID = ''demo_user''"

definition pending_url :: string where
  "pending_url = API_BASE @ ''/marketing/extension/pending/'' @ USER_ID"

definition confirm_url :: "string \<Rightarrow> string" where
  "confirm_url postId = API_BASE @ ''/marketing/extension/confirm/'' @ postId"

text \<open>\<open>await fetch(url, {method})\<close>: rejects on a network failure, resolves otherwise.\<close>

definition js_fetch :: "env \<Rightarrow> string \<Rightarrow> string \<Rightarrow> (event, http_reply) prog" where
  "js_fetch env method url h =
     (case fetch env h method url of
        NetworkFailure \<Rightarrow> Threw ''TypeError: Failed to fetch'' [Fetch method url NetworkFailure]
      | HttpResponse ok b \<Rightarrow> Done (HttpResponse ok b) [Fetch method url (HttpResponse ok b)])"

definition fetchQueuedPosts :: "env \<Rightarrow> (event, post list) prog" where
  "fetchQueuedPosts env =
     tryCatch
       (andThen (js_fetch env ''GET'' pending_url)
          (\<lambda>response.
             case response of
               NetworkFailure \<Rightarrow> throw ''TypeError''
             | HttpResponse ok b \<Rightarrow>
                 if \<not> ok then ret []
                 else (case b of
                         NotJson \<Rightarrow> throw ''SyntaxError''
                       | PostsField None \<Rightarrow> ret []
                       | PostsField (Some ps) \<Rightarrow> ret ps)))
       (\<lambda>error. ret [])"

definition markPostAsPublished :: "env \<Rightarrow> string \<Rightarrow> (event, unit) prog" where
  "markPostAsPublished env postId =
     tryCatch
       (andThen (js_fetch env ''POST'' (confirm_url postId)) (\<lambda>_. ret ()))
       (\<lambda>error. ret ())"

section \<open>Background service worker: notifications\<close>

definition showNotification :: "string \<Rightarrow> string \<Rightarrow> (event, unit) prog" where
  "showNotification title message =
     emit (NotificationCreate ''basic'' ''icons/icon128.png'' (''FounderOS: '' @ title) message)"

section \<open>Background service worker: posting automation\<close>

definition chrome_tabs_query :: "env \<Rightarrow> string list \<Rightarrow> (event, tab list) prog" where
  "chrome_tabs_query env patterns h =
     (case tabs_query env h patterns of
        None \<Rightarrow> Threw ''Error: tabs.query'' [TabsQuery patterns None]
      | Some ts \<Rightarrow> Done ts [TabsQuery patterns (Some ts)])"

definition chrome_tabs_create :: "env \<Rightarrow> string \<Rightarrow> bool \<Rightarrow> (event, tab) prog" where
  "chrome_tabs_create env url active h =
     (case tabs_create env h url active of
        None \<Rightarrow> Threw ''Error: tabs.create'' [TabsCreate url active None]
      | Some t \<Rightarrow> Done t [TabsCreate url active (Some t)])"

definition executeScript :: "env \<Rightarrow> nat \<Rightarrow> injected \<Rightarrow> string \<Rightarrow> (event, exec_reply) prog" where
  "executeScript env tabId func arg h =
     (case execute_script env h tabId func arg of
        ExecRejected \<Rightarrow> Threw ''Error: executeScript'' [ExecuteScript tabId func arg ExecRejected]
      | ExecResults rs \<Rightarrow> Done (ExecResults rs) [ExecuteScript tabId func arg (ExecResults rs)])"

text \<open>\<open>result && result[0] && result[0].result\<close>\<close>

fun truthy :: "exec_reply \<Rightarrow> bool" where
  "truthy (ExecResults (Some True # rs)) = True"
| "truthy _ = False"

definition setTimeout :: "nat \<Rightarrow> (event, unit) prog" where
  "setTimeout ms = emit (SetTimeout ms)"

text \<open>
  \<open>postToTwitter\<close> and \<open>postToLinkedIn\<close> are the same function up to the URL patterns of
  the tab query, the URL of the tab they open, the function they inject and the title of
  the notification; \<open>postVia\<close> is that common body.
\<close>

definition postVia ::
  "env \<Rightarrow> string list \<Rightarrow> string \<Rightarrow> injected \<Rightarrow> string \<Rightarrow> post \<Rightarrow> (event, bool) prog" where
  "postVia env patterns url func title post =
     (case content post of
        None \<Rightarrow> throw ''TypeError: Cannot read properties of undefined''
      | Some text \<Rightarrow>
          newPromiseAsync
            (andThen (chrome_tabs_query env patterns)
               (\<lambda>tabs.
                  andThen
                    (case tabs of
                       t # _ \<Rightarrow> ret (tab_id t)
                     | [] \<Rightarrow>
                         andThen (chrome_tabs_create env url False)
                           (\<lambda>tab. andThen (setTimeout 4000) (\<lambda>_. ret (tab_id tab))))
                    (\<lambda>tabId.
                       tryCatch
                         (andThen (executeScript env tabId func text)
                            (\<lambda>result.
                               if truthy result then
                                 andThen (markPostAsPublished env (post_id post))
                                   (\<lambda>_. andThen
                                      (showNotification title (substring text 0 50 @ ''...''))
                                      (\<lambda>_. ret True))
                               else ret False))
                         (\<lambda>e. ret False)))))"

definition postToTwitter :: "env \<Rightarrow> post \<Rightarrow> (event, bool) prog" where
  "postToTwitter env post =
     postVia env [''*://x.com/*'', ''*://twitter.com/*''] ''https://x.com/compose/tweet''
       AutoPostToX ''Posted to X!'' post"

definition postToLinkedIn :: "env \<Rightarrow> post \<Rightarrow> (event, bool) prog" where
  "postToLinkedIn env post =
     postVia env [''*://www.linkedin.com/*''] ''https://www.linkedin.com/feed/''
       AutoPostToLinkedIn ''Posted to LinkedIn!'' post"

section \<open>Background service worker: post queue processor\<close>

text \<open>\<open>post.scheduled_time && new Date(post.scheduled_time) > new Date()\<close>\<close>

definition scheduledForFuture :: "env \<Rightarrow> event list \<Rightarrow> post \<Rightarrow> bool" where
  "scheduledForFuture env h post =
     (case scheduled_time post of
        None \<Rightarrow> False
      | Some scheduledDate \<Rightarrow> date_gt scheduledDate (Instant (date_now env h)))"

text \<open>The \<open>if (post.platform === 'x') ... else if (post.platform === 'linkedin') ...\<close> block.\<close>

definition postByPlatform :: "env \<Rightarrow> post \<Rightarrow> (event, unit) prog" where
  "postByPlatform env post =
     (if platform post = ''x'' then andThen (postToTwitter env post) (\<lambda>_. ret ())
      else if platform post = ''linkedin'' then andThen (postToLinkedIn env post) (\<lambda>_. ret ())
      else ret ())"

text \<open>The body of the \<open>for (const post of posts)\<close> loop.\<close>

definition processPost :: "env \<Rightarrow> post \<Rightarrow> (event, unit) prog" where
  "processPost env post h =
     (if scheduledForFuture env h post then Done () []
      else andThen (postByPlatform env post) (\<lambda>_. setTimeout 3000) h)"

primrec forEachPost :: "env \<Rightarrow> post list \<Rightarrow> (event, unit) prog" where
  "forEachPost env [] = ret ()"
| "forEachPost env (p # ps) = andThen (processPost env p) (\<lambda>_. forEachPost env ps)"

definition processQueue :: "env \<Rightarrow> (event, unit) prog" where
  "processQueue env =
     andThen (fetchQueuedPosts env)
       (\<lambda>posts. if length posts = 0 then ret () else forEachPost env posts)"

section \<open>Background service worker: message listener\<close>

text \<open>
  \<open>processQueue().then(() => sendResponse({success: true}))
     .catch(err => sendResponse({success: false, error: err.message}))\<close>
  and the \<open>GET_STATUS\<close> branch; any other action gets no response.
\<close>

definition onMessage :: "env \<Rightarrow> string \<Rightarrow> (event, unit) prog" where
  "onMessage env action h =
     (if action = ''PROCESS_NOW'' then
        (case processQueue env h of
           Done u d \<Rightarrow> Done () (d @ [SendResponse (ProcessReply True None)])
         | Threw m d \<Rightarrow> Done () (d @ [SendResponse (ProcessReply False (Some m))])
         | Hung d \<Rightarrow> Hung d)
      else if action = ''GET_STATUS'' then
        andThen (fetchQueuedPosts env)
          (\<lambda>posts. emit (SendResponse (StatusReply posts (length posts)))) h
      else Done () [])"

section \<open>Observations on a trace\<close>

text \<open>The URLs of the HTTP POST requests of a trace, in order.\<close>

fun post_requests :: "event list \<Rightarrow> string list" where
  "post_requests [] = []"
| "post_requests (Fetch method url r # es) =
     (if method = ''POST'' then url # post_requests es else post_requests es)"
| "post_requests (e # es) = post_requests es"

text \<open>The boolean results of the injected posters of a trace, in order.\<close>

fun poster_results :: "event list \<Rightarrow> bool list" where
  "poster_results [] = []"
| "poster_results (ExecuteScript t f a r # es) = truthy r # poster_results es"
| "poster_results (e # es) = poster_results es"

text \<open>The desktop notifications of a trace: type, icon, title and message.\<close>

fun notifications :: "event list \<Rightarrow> (string \<times> string \<times> string \<times> string) list" where
  "notifications [] = []"
| "notifications (NotificationCreate ty icon title message # es) =
     (ty, icon, title, message) # notifications es"
| "notifications (e # es) = notifications es"

text \<open>The value a caller gets, if the promise resolves.\<close>

fun returned :: "('e, 'a) outcome \<Rightarrow> 'a option" where
  "returned (Done a d) = Some a"
| "returned (Threw m d) = None"
| "returned (Hung d) = None"

text \<open>An effect on the browser or the backend other than reading the queue.\<close>

fun is_posting_effect :: "event \<Rightarrow> bool" where
  "is_posting_effect (Fetch method url r) = (method = ''POST'')"
| "is_posting_effect (SendResponse m) = False"
| "is_posting_effect _ = True"

section \<open>Page context\<close>

text \<open>
  The injected functions and the content scripts run inside a page. What they do to the
  page is the trace; what they read from it (\<open>document.querySelector\<close>, a property of
  an element, \<open>window.location.href\<close>) is answered by the page from the trace so far, so
  the page may change after a click or while the script sleeps. An element is a node
  number; an action on an element records the selector that located it. \<open>raises\<close> says
  whether an action throws. A timer set for \<open>ms\<close> fires after \<open>ms\<close> plus an extra
  delay chosen by the page's event loop, and \<open>Date.now()\<close> is the time origin plus the
  time slept so far.
\<close>

datatype page_event =
    Slept nat nat
  | Click string nat
  | Focus string nat
  | ExecInsertText "string option"
  | SetTextContent string nat "string option"
  | SetInnerHTML string nat string
  | SetValue string nat string
  | DispatchEvent string nat string
  | SetLocation string

record page =
  query :: "page_event list \<Rightarrow> string \<Rightarrow> nat option"
  disabled :: "page_event list \<Rightarrow> nat \<Rightarrow> bool"
  textContent :: "page_event list \<Rightarrow> nat \<Rightarrow> string"
  href :: "page_event list \<Rightarrow> string"
  raises :: "page_event list \<Rightarrow> page_event \<Rightarrow> bool"
  timer_extra :: "page_event list \<Rightarrow> nat \<Rightarrow> nat"
  math_random :: "page_event list \<Rightarrow> real"
  time_origin :: int
  toISOString :: "int \<Rightarrow> string"
  toTimeString :: "int \<Rightarrow> string"

fun duration :: "page_event \<Rightarrow> nat" where
  "duration (Slept ms extra) = ms + extra"
| "duration e = 0"

definition elapsed :: "page_event list \<Rightarrow> nat" where
  "elapsed h = sum_list (map duration h)"

definition Date_now :: "page \<Rightarrow> page_event list \<Rightarrow> int" where
  "Date_now pg h = time_origin pg + int (elapsed h)"

definition act :: "page \<Rightarrow> page_event \<Rightarrow> (page_event, unit) prog" where
  "act pg e h = (if raises pg h e then Threw ''Error'' [] else Done () [e])"

definition querySelector :: "page \<Rightarrow> string \<Rightarrow> (page_event, nat option) prog" where
  "querySelector pg selector h = Done (query pg h selector) []"

text \<open>\<open>document.querySelector(a) || document.querySelector(b) || ...\<close>\<close>

fun firstMatch :: "page \<Rightarrow> page_event list \<Rightarrow> string list \<Rightarrow> (string \<times> nat) option" where
  "firstMatch pg h [] = None"
| "firstMatch pg h (s # ss) =
     (case query pg h s of Some n \<Rightarrow> Some (s, n) | None \<Rightarrow> firstMatch pg h ss)"

definition querySelectorAny ::
  "page \<Rightarrow> string list \<Rightarrow> (page_event, (string \<times> nat) option) prog" where
  "querySelectorAny pg selectors h = Done (firstMatch pg h selectors) []"

definition isDisabled :: "page \<Rightarrow> nat \<Rightarrow> (page_event, bool) prog" where
  "isDisabled pg n h = Done (disabled pg h n) []"

definition getTextContent :: "page \<Rightarrow> nat \<Rightarrow> (page_event, string) prog" where
  "getTextContent pg n h = Done (textContent pg h n) []"

definition locationHref :: "page \<Rightarrow> (page_event, string) prog" where
  "locationHref pg h = Done (href pg h) []"

text \<open>\<open>sleep(ms)\<close>: a timer with a negative delay fires as one with delay 0.\<close>

definition sleep :: "page \<Rightarrow> int \<Rightarrow> (page_event, unit) prog" where
  "sleep pg ms h = Done () [Slept (nat ms) (timer_extra pg h (nat ms))]"

text \<open>\<open>Math.floor(Math.random() * (max - min + 1)) + min\<close>\<close>

definition randomDelay :: "page \<Rightarrow> int \<Rightarrow> int \<Rightarrow> (page_event, int) prog" where
  "randomDelay pg min' max' h =
     Done (\<lfloor>math_random pg h * real_of_int (max' - min' + 1)\<rfloor> + min') []"

text \<open>\<open>content.replace(/\n/g, r)\<close>\<close>

definition replaceNewlines :: "string \<Rightarrow> string \<Rightarrow> string" where
  "replaceNewlines s r = concat (map (\<lambda>c. if c = CHR 0x0A then r else [c]) s)"

subsection \<open>The selector-polling helper of the content scripts\<close>

text \<open>
  \<open>waitForElement\<close> is the same function in both content scripts. \<open>waitLoop\<close> is its
  \<open>while (Date.now() - start < timeout)\<close> loop, one poll and one \<open>sleep(100)\<close> per
  iteration.
\<close>

function waitLoop ::
  "page \<Rightarrow> string \<Rightarrow> int \<Rightarrow> int \<Rightarrow> (page_event, nat option) prog" where
  "waitLoop pg selector timeout start h =
     (if Date_now pg h - start < timeout then
        (case query pg h selector of
           Some element \<Rightarrow> Done (Some element) []
         | None \<Rightarrow>
             prepend [Slept 100 (timer_extra pg h 100)]
               (waitLoop pg selector timeout start (h @ [Slept 100 (timer_extra pg h 100)])))
      else Done None [])"
  by pat_completeness auto
termination
proof (relation "measure (\<lambda>(pg, selector, timeout, start, h). nat (timeout - (Date_now pg h - start)))")
  show "wf (measure (\<lambda>(pg, selector, timeout, start, h). nat (timeout - (Date_now pg h - start))))"
    by simp
next
  fix pg :: page and selector :: string and timeout start :: int and h :: "page_event list"
  assume "Date_now pg h - start < timeout"
  then show "((pg, selector, timeout, start, h @ [Slept 100 (timer_extra pg h 100)]),
                    (pg, selector, timeout, start, h))
        \<in> measure (\<lambda>(pg, selector, timeout, start, h). nat (timeout - (Date_now pg h - start)))"
    by (simp add: Date_now_def elapsed_def)
qed

declare waitLoop.simps [simp del]

definition waitForElement :: "page \<Rightarrow> string \<Rightarrow> int \<Rightarrow> (page_event, nat option) prog" where
  "waitForElement pg selector timeout h = waitLoop pg selector timeout (Date_now pg h) h"

subsection \<open>The functions injected by the background worker\<close>

definition autoPostToX :: "page \<Rightarrow> string \<Rightarrow> (page_event, bool) prog" where
  \<open>autoPostToX pg text =
     tryCatch
       (andThen (locationHref pg) (\<lambda>location.
        andThen
          (if \<not> js_includes location ''/compose'' then
             andThen (querySelector pg ''[data-testid="SideNav_NewTweet_Button"]'')
               (\<lambda>composeBtn.
                  case composeBtn of
                    Some b \<Rightarrow>
                      andThen (act pg (Click ''[data-testid="SideNav_NewTweet_Button"]'' b))
                        (\<lambda>_. sleep pg 1500)
                  | None \<Rightarrow> ret ())
           else ret ()) (\<lambda>_.
        andThen
          (querySelectorAny pg
             [''[data-testid="tweetTextarea_0"]'', ''[aria-label="Post text"]'',
              ''.public-DraftEditor-content'']) (\<lambda>tweetBox.
        case tweetBox of
          None \<Rightarrow> ret False
        | Some (s, box) \<Rightarrow>
            andThen (act pg (Focus s box)) (\<lambda>_.
            andThen (sleep pg 300) (\<lambda>_.
            andThen (act pg (ExecInsertText (Some text))) (\<lambda>_.
            andThen (sleep pg 500) (\<lambda>_.
            andThen
              (querySelectorAny pg
                 [''[data-testid="tweetButton"]'', ''[data-testid="tweetButtonInline"]''])
              (\<lambda>postBtn.
            case postBtn of
              None \<Rightarrow> ret False
            | Some (s', btn) \<Rightarrow>
                andThen (isDisabled pg btn) (\<lambda>off.
                if \<not> off then
                  andThen (sleep pg 1000) (\<lambda>_.
                  andThen (act pg (Click s' btn)) (\<lambda>_.
                  andThen (sleep pg 2000) (\<lambda>_. ret True)))
                else ret False))))))))))
       (\<lambda>e. ret False)\<close>

definition autoPostToLinkedIn :: "page \<Rightarrow> string \<Rightarrow> (page_event, bool) prog" where
  \<open>autoPostToLinkedIn pg text =
     tryCatch
       (andThen
          (querySelectorAny pg
             [''.share-box-feed-entry__trigger'', ''[data-control-name="share.new_post"]'',
              ''.artdeco-button--tertiary'']) (\<lambda>startPostBtn.
        andThen
          (case startPostBtn of
             Some (s, b) \<Rightarrow> andThen (act pg (Click s b)) (\<lambda>_. sleep pg 1500)
           | None \<Rightarrow> ret ()) (\<lambda>_.
        andThen
          (querySelectorAny pg
             [''.ql-editor'', ''[data-placeholder="What do you want to talk about?"]'',
              ''[role="textbox"]'']) (\<lambda>editor.
        case editor of
          None \<Rightarrow> ret False
        | Some (s, ed) \<Rightarrow>
            andThen (act pg (Focus s ed)) (\<lambda>_.
            andThen (sleep pg 300) (\<lambda>_.
            andThen
              (act pg (SetInnerHTML s ed
                 (''<p>'' @ replaceNewlines text ''</p><p>'' @ ''</p>''))) (\<lambda>_.
            andThen (act pg (DispatchEvent s ed ''input'')) (\<lambda>_.
            andThen (sleep pg 1000) (\<lambda>_.
            andThen
              (querySelectorAny pg
                 [''.share-actions__primary-action'', ''[data-control-name="share.post"]'',
                  ''button.share-box-feed-entry__closed-share-box btn'']) (\<lambda>postBtn.
            case postBtn of
              None \<Rightarrow> ret False
            | Some (s', btn) \<Rightarrow>
                andThen (isDisabled pg btn) (\<lambda>off.
                if \<not> off then
                  andThen (sleep pg 1500) (\<lambda>_.
                  andThen (act pg (Click s' btn)) (\<lambda>_.
                  andThen (sleep pg 2000) (\<lambda>_. ret True)))
                else ret False)))))))))))
       (\<lambda>e. ret False)\<close>

subsection \<open>The content scripts\<close>

text \<open>
  \<open>postToX\<close> of the X content script and \<open>postToLinkedIn\<close> of the LinkedIn content
  script (here \<open>postToLinkedIn_content\<close>: the background worker has a function of the
  same name). They answer a \<open>POST_CONTENT\<close> message with the post itself.
\<close>

definition postToX :: "page \<Rightarrow> post \<Rightarrow> (page_event, bool) prog" where
  \<open>postToX pg post =
     tryCatch
       (andThen (locationHref pg) (\<lambda>location.
        andThen
          (if \<not> js_includes location ''/compose'' then
             andThen (act pg (SetLocation ''https://x.com/compose/tweet'')) (\<lambda>_. sleep pg 2000)
           else ret ()) (\<lambda>_.
        andThen (waitForElement pg ''[data-testid="tweetTextarea_0"]'' 5000) (\<lambda>textarea.
        case textarea of
          None \<Rightarrow> ret False
        | Some ta \<Rightarrow>
            andThen (act pg (Focus ''[data-testid="tweetTextarea_0"]'' ta)) (\<lambda>_.
            andThen (act pg (ExecInsertText (content post))) (\<lambda>_.
            andThen (getTextContent pg ta) (\<lambda>current.
            andThen
              (if current = [] then
                 andThen
                   (act pg (SetTextContent ''[data-testid="tweetTextarea_0"]'' ta (content post)))
                   (\<lambda>_. act pg (DispatchEvent ''[data-testid="tweetTextarea_0"]'' ta ''input''))
               else ret ()) (\<lambda>_.
            andThen (sleep pg 500) (\<lambda>_.
            case scheduled_time post of
              Some when \<Rightarrow>
                andThen (waitForElement pg ''[data-testid="scheduleOption"]'' 2000)
                  (\<lambda>scheduleBtn.
                case scheduleBtn of
                  Some sb \<Rightarrow>
                    andThen (act pg (Click ''[data-testid="scheduleOption"]'' sb)) (\<lambda>_.
                    andThen (sleep pg 500) (\<lambda>_.
                    andThen
                      (waitForElement pg
                         ''[data-testid="scheduledConfirmationPrimaryAction"]'' 2000)
                      (\<lambda>confirmBtn.
                    case confirmBtn of
                      Some cb \<Rightarrow>
                        andThen
                          (act pg
                             (Click ''[data-testid="scheduledConfirmationPrimaryAction"]'' cb))
                          (\<lambda>_. ret True)
                    | None \<Rightarrow> ret True)))
                | None \<Rightarrow> ret True)
            | None \<Rightarrow>
                andThen (waitForElement pg ''[data-testid="tweetButton"]'' 2000) (\<lambda>postBtn.
                case postBtn of
                  Some pb \<Rightarrow>
                    andThen (randomDelay pg 500 1500) (\<lambda>ms.
                    andThen (sleep pg ms) (\<lambda>_.
                    andThen (act pg (Click ''[data-testid="tweetButton"]'' pb)) (\<lambda>_.
                    andThen (sleep pg 2000) (\<lambda>_. ret True))))
                | None \<Rightarrow> ret True))))))))))
       (\<lambda>error. ret False)\<close>

text \<open>
  The date and time typed into LinkedIn's schedule form:
  \<open>date.toISOString().split('T')[0]\<close> (a \<open>RangeError\<close> for an invalid date) and
  \<open>date.toTimeString().slice(0, 5)\<close>.
\<close>

definition fillSchedule :: "page \<Rightarrow> nat \<Rightarrow> nat \<Rightarrow> js_date \<Rightarrow> (page_event, unit) prog" where
  \<open>fillSchedule pg dateInput timeInput when =
     (case when of
        InvalidDate \<Rightarrow> throw ''RangeError: Invalid time value''
      | Instant t \<Rightarrow>
          andThen
            (act pg (SetValue ''input[type="date"]'' dateInput
               (takeWhile (\<lambda>c. c \<noteq> CHR ''T'') (toISOString pg t)))) (\<lambda>_.
          andThen
            (act pg (SetValue ''input[type="time"]'' timeInput (take 5 (toTimeString pg t))))
            (\<lambda>_.
          andThen (act pg (DispatchEvent ''input[type="date"]'' dateInput ''change'')) (\<lambda>_.
          act pg (DispatchEvent ''input[type="time"]'' timeInput ''change'')))))\<close>

definition postToLinkedIn_content :: "page \<Rightarrow> post \<Rightarrow> (page_event, bool) prog" where
  \<open>postToLinkedIn_content pg post =
     tryCatch
       (andThen (querySelector pg ''.share-box-feed-entry__trigger'') (\<lambda>startPostBtn.
        andThen
          (case startPostBtn of
             Some b \<Rightarrow>
               andThen (act pg (Click ''.share-box-feed-entry__trigger'' b)) (\<lambda>_. sleep pg 1000)
           | None \<Rightarrow> ret ()) (\<lambda>_.
        andThen (waitForElement pg ''.ql-editor'' 5000) (\<lambda>editor.
        case editor of
          None \<Rightarrow> ret False
        | Some ed \<Rightarrow>
            andThen (act pg (Focus ''.ql-editor'' ed)) (\<lambda>_.
            andThen (act pg (SetInnerHTML ''.ql-editor'' ed [])) (\<lambda>_.
            andThen
              (case content post of
                 None \<Rightarrow> throw ''TypeError: Cannot read properties of undefined''
               | Some text \<Rightarrow> ret (replaceNewlines text ''<br>'')) (\<lambda>html.
            andThen (act pg (SetInnerHTML ''.ql-editor'' ed (''<p>'' @ html @ ''</p>''))) (\<lambda>_.
            andThen (act pg (DispatchEvent ''.ql-editor'' ed ''input'')) (\<lambda>_.
            andThen (sleep pg 500) (\<lambda>_.
            case scheduled_time post of
              Some when \<Rightarrow>
                andThen
                  (querySelectorAny pg
                     [''[data-control-name="schedule_post"]'',
                      ''.share-box-footer__schedule-btn'']) (\<lambda>scheduleBtn.
                case scheduleBtn of
                  Some (s, sb) \<Rightarrow>
                    andThen (act pg (Click s sb)) (\<lambda>_.
                    andThen (sleep pg 500) (\<lambda>_.
                    andThen (querySelector pg ''input[type="date"]'') (\<lambda>dateInput.
                    andThen (querySelector pg ''input[type="time"]'') (\<lambda>timeInput.
                    andThen
                      (case (dateInput, timeInput) of
                         (Some di, Some ti) \<Rightarrow> fillSchedule pg di ti when
                       | _ \<Rightarrow> ret ()) (\<lambda>_.
                    andThen (querySelector pg ''[data-control-name="schedule_confirm"]'')
                      (\<lambda>confirmBtn.
                    case confirmBtn of
                      Some cb \<Rightarrow>
                        andThen
                          (act pg (Click ''[data-control-name="schedule_confirm"]'' cb))
                          (\<lambda>_. ret True)
                    | None \<Rightarrow> ret True))))))
                | None \<Rightarrow> ret True)
            | None \<Rightarrow>
                andThen
                  (querySelectorAny pg
                     [''.share-actions__primary-action'', ''[data-control-name="share.post"]''])
                  (\<lambda>postBtn.
                case postBtn of
                  Some (s, pb) \<Rightarrow>
                    andThen (randomDelay pg 800 2000) (\<lambda>ms.
                    andThen (sleep pg ms) (\<lambda>_.
                    andThen (act pg (Click s pb)) (\<lambda>_.
                    andThen (sleep pg 2000) (\<lambda>_. ret True))))
                | None \<Rightarrow> ret True)))))))))))
       (\<lambda>error. ret False)\<close>

section \<open>Popup\<close>

text \<open>
  The popup keeps the queue it last displayed in the variable \<open>posts\<close> and the
  daily-posted counter under the key \<open>postedToday\<close> of \<open>chrome.storage.local\<close>
  (\<open>None\<close>: never written). Of the page only the two counters and the post-now button
  are modelled.
\<close>

datatype button_label = Posting | DoneLabel | ErrorLabel | PostAllNow

record popup =
  posts :: "post list"
  postedToday :: "nat option"
  queuedCount :: nat
  postedCount :: nat
  postNowBtn_label :: button_label
  postNowBtn_disabled :: bool

text \<open>\<open>result.postedToday || 0\<close>\<close>

definition storedCount :: "popup \<Rightarrow> nat" where
  "storedCount s = (case postedToday s of None \<Rightarrow> 0 | Some n \<Rightarrow> n)"

definition renderPosts :: "popup \<Rightarrow> popup" where
  "renderPosts s =
     s\<lparr>queuedCount := length (posts s),
       postedCount := storedCount s,
       postNowBtn_disabled := (length (posts s) = 0)\<rparr>"

text \<open>The callback of \<open>loadQueue\<close>: \<open>if (response) { posts = response.posts || []; renderPosts() }\<close>.\<close>

definition loadQueue_callback :: "popup \<Rightarrow> reply_msg option \<Rightarrow> popup" where
  "loadQueue_callback s response =
     (case response of
        None \<Rightarrow> s
      | Some (StatusReply ps n) \<Rightarrow> renderPosts (s\<lparr>posts := ps\<rparr>)
      | Some (ProcessReply ok err) \<Rightarrow> renderPosts (s\<lparr>posts := []\<rparr>))"

text \<open>\<open>response && response.success\<close>\<close>

fun succeeded :: "reply_msg option \<Rightarrow> bool" where
  "succeeded (Some (ProcessReply ok err)) = ok"
| "succeeded _ = False"

text \<open>
  \<open>postAllNow\<close> up to its \<open>sendMessage\<close> call, the callback of that call, and the timer
  the callback sets (which reloads the queue after a success; \<open>status\<close> is the answer to
  that \<open>GET_STATUS\<close>).
\<close>

definition postAllNow_start :: "popup \<Rightarrow> popup" where
  "postAllNow_start s = s\<lparr>postNowBtn_label := Posting, postNowBtn_disabled := True\<rparr>"

definition postAllNow_callback :: "popup \<Rightarrow> reply_msg option \<Rightarrow> popup" where
  "postAllNow_callback s response =
     (if succeeded response then
        (let count = storedCount s + length (posts s)
         in s\<lparr>postNowBtn_label := DoneLabel, postedToday := Some count, postedCount := count\<rparr>)
      else s\<lparr>postNowBtn_label := ErrorLabel\<rparr>)"

definition postAllNow_timer :: "popup \<Rightarrow> reply_msg option \<Rightarrow> reply_msg option \<Rightarrow> popup" where
  "postAllNow_timer s response status =
     (if succeeded response then
        loadQueue_callback (s\<lparr>postNowBtn_label := PostAllNow, postNowBtn_disabled := False\<rparr>) status
      else s\<lparr>postNowBtn_label := PostAllNow, postNowBtn_disabled := False\<rparr>)"

text \<open>The response the background worker sends, if any.\<close>

fun sent_response :: "event list \<Rightarrow> reply_msg option" where
  "sent_response [] = None"
| "sent_response (SendResponse m # es) = Some m"
| "sent_response (e # es) = sent_response es"

fun is_response :: "event \<Rightarrow> bool" where
  "is_response (SendResponse m) = True"
| "is_response e = False"

text \<open>A click on the post-now button, with the worker's listener answering the message.\<close>

definition postAllNow :: "env \<Rightarrow> event list \<Rightarrow> popup \<Rightarrow> popup" where
  "postAllNow env h s =
     postAllNow_callback (postAllNow_start s)
       (sent_response (effects (onMessage env ''PROCESS_NOW'' h)))"

section \<open>Example posts, backends and pages\<close>

definition launch_post :: post where
  "launch_post =
     \<lparr>post_id = ''p1'', content = Some ''Launch day!'', platform = ''x'', scheduled_time = None\<rparr>"

definition later_post :: post where
  "later_post =
     \<lparr>post_id = ''p2'', content = Some ''See you tomorrow'', platform = ''linkedin'',
      scheduled_time = Some (Instant 5000)\<rparr>"


text \<open>
  A backend that serves the queue \<open>ps\<close> and acknowledges every confirmation, a browser
  with one X tab open in which every injected poster resolves with \<open>outcome\<close>, and a
  clock that reads 1000.
\<close>

definition backend :: "post list \<Rightarrow> bool \<Rightarrow> env" where
  "backend ps outcome =
     \<lparr>fetch = (\<lambda>h method url.
         if method = ''GET'' then HttpResponse True (PostsField (Some ps))
         else HttpResponse True NotJson),
      tabs_query = (\<lambda>h patterns. Some [\<lparr>tab_id = 7, tab_url = ''https://x.com/home''\<rparr>]),
      tabs_create = (\<lambda>h url active. Some \<lparr>tab_id = 8, tab_url = url\<rparr>),
      execute_script = (\<lambda>h tabId func arg. ExecResults [Some outcome]),
      date_now = (\<lambda>h. 1000)\<rparr>"

definition offline :: env where
  "offline = (backend [launch_post] True)\<lparr>fetch := (\<lambda>h method url. NetworkFailure)\<rparr>"

text \<open>
  A page that never changes: \<open>nodes\<close> maps selectors to nodes, no element is disabled, the
  text box is empty until text is inserted, nothing throws and timers fire on time.
\<close>

definition static_page :: "string \<Rightarrow> (string \<times> nat) list \<Rightarrow> page" where
  "static_page url nodes =
     \<lparr>query = (\<lambda>h selector. map_of nodes selector),
      disabled = (\<lambda>h n. False),
      textContent = (\<lambda>h n. concat (map (\<lambda>e. case e of ExecInsertText (Some t) \<Rightarrow> t | _ \<Rightarrow> []) h)),
      href = (\<lambda>h. url),
      raises = (\<lambda>h e. False),
      timer_extra = (\<lambda>h ms. 0),
      math_random = (\<lambda>h. 0),
      time_origin = 0,
      toISOString = (\<lambda>t. ''1970-01-01T00:00:00.000Z''),
      toTimeString = (\<lambda>t. ''00:00:00 GMT+0000'')\<rparr>"


text \<open>The compose page with the text box but none of the buttons.\<close>

definition x_compose_no_buttons :: page where
  \<open>x_compose_no_buttons =
     static_page ''https://x.com/compose/tweet'' [(''[data-testid="tweetTextarea_0"]'', 1)]\<close>

text \<open>A page on which node 1 matches every selector once 250 ms have passed.\<close>

definition slow_page :: page where
  "slow_page =
     (static_page ''https://x.com/compose/tweet'' [])
       \<lparr>query := (\<lambda>h selector. if 250 \<le> elapsed h then Some 1 else None)\<rparr>"







text \<open>The LinkedIn feed with the editor, the schedule form and the post button.\<close>

definition linkedin_feed :: page where
  \<open>linkedin_feed =
     static_page ''https://www.linkedin.com/feed/''
       [(''.share-box-feed-entry__trigger'', 1), (''.ql-editor'', 2),
        (''[data-control-name="schedule_post"]'', 3), (''input[type="date"]'', 4),
        (''input[type="time"]'', 5), (''[data-control-name="schedule_confirm"]'', 6),
        (''.share-actions__primary-action'', 7)]\<close>

section \<open>Observations on a page trace\<close>

text \<open>The selectors of the clicked elements, in order.\<close>

fun clicked :: "page_event list \<Rightarrow> string list" where
  "clicked [] = []"
| "clicked (Click s n # es) = s # clicked es"
| "clicked (e # es) = clicked es"



section \<open>Laws of sequencing\<close>





section \<open>Queue fetcher\<close>

lemma fetchQueuedPosts_resolves:
  "\<exists>ps. fetchQueuedPosts env h =
     Done ps [Fetch ''GET'' pending_url (fetch env h ''GET'' pending_url)]"
  by (simp add: fetchQueuedPosts_def tryCatch_def andThen_def js_fetch_def ret_def throw_def
      split: http_reply.splits body.splits option.splits)

text \<open>
  C2. When the GET of the pending queue fails with a network error or comes back with a
  non-success status, \<open>fetchQueuedPosts\<close> resolves with the empty list and does not
  reject; a caller gets exactly what it gets from a successful fetch of an empty queue.
\<close>

theorem fetchQueuedPosts_failure_is_empty_queue:
  assumes failed: "fetch env h ''GET'' pending_url = NetworkFailure
      \<or> (\<exists>b. fetch env h ''GET'' pending_url = HttpResponse False b)"
    and empty: "fetch env' h' ''GET'' pending_url = HttpResponse True (PostsField (Some []))"
  shows "returned (fetchQueuedPosts env h) = Some []
     \<and> returned (fetchQueuedPosts env h) = returned (fetchQueuedPosts env' h')"
  using failed empty
  by (auto simp add: fetchQueuedPosts_def tryCatch_def andThen_def js_fetch_def ret_def throw_def)

theorem fetchQueuedPosts_failure_is_empty_queue_witness:
  "fetch offline [] ''GET'' pending_url = NetworkFailure
   \<and> fetch (backend [] True) [] ''GET'' pending_url = HttpResponse True (PostsField (Some []))
   \<and> returned (fetchQueuedPosts offline []) = Some []
   \<and> returned (fetchQueuedPosts offline []) = returned (fetchQueuedPosts (backend [] True) [])"
proof -
  have a: "fetch offline [] ''GET'' pending_url = NetworkFailure"
    by (simp add: offline_def backend_def)
  have b: "fetch (backend [] True) [] ''GET'' pending_url = HttpResponse True (PostsField (Some []))"
    by (simp add: backend_def)
  show ?thesis
    using a b fetchQueuedPosts_failure_is_empty_queue [OF disjI1 [OF a] b] by blast
qed

section \<open>Platform posters of the background worker\<close>

lemma postVia_confirmation:
  "post_requests (effects (postVia env pats url f title p h)) =
     (if poster_results (effects (postVia env pats url f title p h)) = [True]
      then [confirm_url (post_id p)] else [])
   \<and> length (poster_results (effects (postVia env pats url f title p h))) \<le> 1"
  by (simp add: postVia_def newPromiseAsync_def andThen_def tryCatch_def chrome_tabs_query_def
        chrome_tabs_create_def executeScript_def markPostAsPublished_def js_fetch_def
        showNotification_def setTimeout_def emit_def ret_def throw_def
      split: option.splits list.splits exec_reply.splits http_reply.splits)

lemma postVia_returns:
  assumes "postVia env pats url f title p h = Done b d"
  shows "b = (poster_results d = [True])"
  using assms
  by (auto simp add: postVia_def newPromiseAsync_def andThen_def tryCatch_def chrome_tabs_query_def
        chrome_tabs_create_def executeScript_def markPostAsPublished_def js_fetch_def
        showNotification_def setTimeout_def emit_def ret_def throw_def
      split: option.splits list.splits exec_reply.splits http_reply.splits if_splits)

lemma postVia_notifications:
  assumes "content p = Some text" and "postVia env pats url f title p h = Done b d"
  shows "notifications d =
     (if b then [(''basic'', ''icons/icon128.png'', ''FounderOS: '' @ title, take 50 text @ ''...'')]
      else [])"
  using assms
  by (auto simp add: postVia_def newPromiseAsync_def andThen_def tryCatch_def chrome_tabs_query_def
        chrome_tabs_create_def executeScript_def markPostAsPublished_def js_fetch_def
        showNotification_def setTimeout_def emit_def ret_def throw_def substring_def
      split: option.splits list.splits exec_reply.splits http_reply.splits if_splits)

lemma launch_post_trace:
  "postToTwitter (backend ps ok) launch_post [] =
     (if ok then
        Done True
          [TabsQuery [''*://x.com/*'', ''*://twitter.com/*'']
             (Some [\<lparr>tab_id = 7, tab_url = ''https://x.com/home''\<rparr>]),
           ExecuteScript 7 AutoPostToX ''Launch day!'' (ExecResults [Some True]),
           Fetch ''POST'' (confirm_url ''p1'') (HttpResponse True NotJson),
           NotificationCreate ''basic'' ''icons/icon128.png'' ''FounderOS: Posted to X!''
             ''Launch day!...'']
      else
        Done False
          [TabsQuery [''*://x.com/*'', ''*://twitter.com/*'']
             (Some [\<lparr>tab_id = 7, tab_url = ''https://x.com/home''\<rparr>]),
           ExecuteScript 7 AutoPostToX ''Launch day!'' (ExecResults [Some False])])"
  by (simp add: postToTwitter_def postVia_def newPromiseAsync_def andThen_def tryCatch_def
        chrome_tabs_query_def chrome_tabs_create_def executeScript_def markPostAsPublished_def
        js_fetch_def showNotification_def setTimeout_def emit_def ret_def throw_def
        substring_def backend_def launch_post_def)

text \<open>
  C1. For a post handed to a platform poster of the worker (\<open>postToTwitter\<close> or
  \<open>postToLinkedIn\<close>): the trace of the call has a confirmation POST exactly when the
  injected poster's result is true, then exactly one, to the confirm URL of that post's
  identifier; the poster is injected at most once; and the boolean the call resolves with
  is that result.
\<close>

theorem confirmation_iff_poster_true:
  assumes "poster = postToTwitter \<or> poster = postToLinkedIn"
  shows "post_requests (effects (poster env post h)) =
           (if poster_results (effects (poster env post h)) = [True]
            then [confirm_url (post_id post)] else [])
       \<and> length (poster_results (effects (poster env post h))) \<le> 1
       \<and> (\<forall>b d. poster env post h = Done b d \<longrightarrow> b = (poster_results d = [True]))"
  using assms postVia_confirmation postVia_returns
  unfolding postToTwitter_def postToLinkedIn_def by blast

theorem confirmation_iff_poster_true_witness:
  "poster_results (effects (postToTwitter (backend [launch_post] True) launch_post [])) = [True]
   \<and> post_requests (effects (postToTwitter (backend [launch_post] True) launch_post []))
       = [confirm_url ''p1'']
   \<and> poster_results (effects (postToTwitter (backend [launch_post] False) launch_post [])) = [False]
   \<and> post_requests (effects (postToTwitter (backend [launch_post] False) launch_post [])) = []"
proof -
  have "post_id launch_post = ''p1''"
    by (simp add: launch_post_def)
  then show ?thesis
    using confirmation_iff_poster_true [of postToTwitter "backend [launch_post] True" launch_post "[]"]
      confirmation_iff_poster_true [of postToTwitter "backend [launch_post] False" launch_post "[]"]
    by (simp add: launch_post_trace)
qed

text \<open>
  C8. When a poster of the worker succeeds on a post with text \<open>text\<close>, the call raises
  exactly one notification, of type basic with the fixed icon, whose title is
  \<open>FounderOS: \<close> followed by \<open>Posted to X!\<close> (by \<open>Posted to LinkedIn!\<close> for LinkedIn) and
  whose message is the first 50 characters of the text followed by three dots. The X
  title contains \<open>X\<close>.
\<close>

theorem notification_on_success:
  assumes "content post = Some text"
  shows "(postToTwitter env post h = Done True d \<longrightarrow>
            notifications d =
              [(''basic'', ''icons/icon128.png'', ''FounderOS: '' @ ''Posted to X!'',
                take 50 text @ ''...'')])
       \<and> (postToLinkedIn env post h = Done True d \<longrightarrow>
            notifications d =
              [(''basic'', ''icons/icon128.png'', ''FounderOS: '' @ ''Posted to LinkedIn!'',
                take 50 text @ ''...'')])
       \<and> js_includes (''FounderOS: '' @ ''Posted to X!'') ''X''"
  using assms postVia_notifications [of post "text" env _ _ _ _ h True d]
  unfolding postToTwitter_def postToLinkedIn_def by simp

theorem notification_on_success_witness:
  "content launch_post = Some ''Launch day!''
   \<and> postToTwitter (backend [launch_post] True) launch_post [] =
       Done True (effects (postToTwitter (backend [launch_post] True) launch_post []))
   \<and> notifications (effects (postToTwitter (backend [launch_post] True) launch_post [])) =
       [(''basic'', ''icons/icon128.png'', ''FounderOS: Posted to X!'', ''Launch day!...'')]
   \<and> js_includes ''FounderOS: Posted to X!'' ''X''
   \<and> js_includes ''Launch day!...'' ''Launch day!''"
proof -
  have c: "content launch_post = Some ''Launch day!''"
    by (simp add: launch_post_def)
  have r: "postToTwitter (backend [launch_post] True) launch_post [] =
       Done True (effects (postToTwitter (backend [launch_post] True) launch_post []))"
    by (simp add: launch_post_trace)
  show ?thesis
    using c r notification_on_success [OF c, of "backend [launch_post] True" "[]"
        "effects (postToTwitter (backend [launch_post] True) launch_post [])"]
    by simp
qed

section \<open>Properties of every effect of a program\<close>

lemma all_effects_prepend:
  "list_all P (effects (prepend d r)) = (list_all P d \<and> list_all P (effects r))"
  by (cases r) simp_all

lemma all_effects_andThen:
  assumes "list_all P (effects (m h))"
    and "\<And>a d. m h = Done a d \<Longrightarrow> list_all P (effects (f a (h @ d)))"
  shows "list_all P (effects (andThen m f h))"
  using assms by (cases "m h") (simp_all add: andThen_def all_effects_prepend)


lemma sent_response_last:
  "list_all (\<lambda>e. \<not> is_response e) d \<Longrightarrow> sent_response (d @ [SendResponse m]) = Some m"
  by (induction d rule: sent_response.induct) simp_all

lemma postVia_no_response:
  "list_all (\<lambda>e. \<not> is_response e) (effects (postVia env pats url f title p h))"
  by (simp add: postVia_def newPromiseAsync_def andThen_def tryCatch_def chrome_tabs_query_def
        chrome_tabs_create_def executeScript_def markPostAsPublished_def js_fetch_def
        showNotification_def setTimeout_def emit_def ret_def throw_def
      split: option.splits list.splits exec_reply.splits http_reply.splits)

lemma processPost_no_response:
  "list_all (\<lambda>e. \<not> is_response e) (effects (processPost env p h))"
  unfolding processPost_def postByPlatform_def postToTwitter_def postToLinkedIn_def
  by (auto intro!: all_effects_andThen postVia_no_response simp add: ret_def setTimeout_def emit_def)

lemma forEachPost_no_response:
  "list_all (\<lambda>e. \<not> is_response e) (effects (forEachPost env ps h))"
  by (induction ps arbitrary: h)
    (auto intro!: all_effects_andThen processPost_no_response simp add: ret_def)

lemma processQueue_no_response:
  "list_all (\<lambda>e. \<not> is_response e) (effects (processQueue env h))"
  unfolding processQueue_def
  using fetchQueuedPosts_resolves [of env h]
  by (auto intro!: all_effects_andThen forEachPost_no_response simp add: ret_def)

section \<open>Post queue processor\<close>















text \<open>
  C10. When the queue fetch gives the empty list, \<open>processQueue\<close> resolves at once: its
  whole trace is the GET of the queue, so no tab is queried or created, no script is
  injected, no confirmation is posted, no notification is raised and no timer is set.
\<close>

theorem processQueue_empty_queue_no_effects:
  assumes "fetchQueuedPosts env h = Done [] d"
  shows "processQueue env h = Done () d
       \<and> d = [Fetch ''GET'' pending_url (fetch env h ''GET'' pending_url)]
       \<and> filter is_posting_effect (effects (processQueue env h)) = []"
proof -
  have 1: "processQueue env h = Done () d"
    using assms by (simp add: processQueue_def andThen_def ret_def)
  have 2: "d = [Fetch ''GET'' pending_url (fetch env h ''GET'' pending_url)]"
    using assms fetchQueuedPosts_resolves [of env h] by auto
  show ?thesis
    using 1 2 by simp
qed

theorem processQueue_empty_queue_no_effects_witness:
  "fetchQueuedPosts (backend [] True) [] =
     Done [] [Fetch ''GET'' pending_url (HttpResponse True (PostsField (Some [])))]
   \<and> processQueue (backend [] True) [] =
     Done () [Fetch ''GET'' pending_url (HttpResponse True (PostsField (Some [])))]"
proof -
  have f: "fetchQueuedPosts (backend [] True) [] =
     Done [] [Fetch ''GET'' pending_url (HttpResponse True (PostsField (Some [])))]"
    by (simp add: fetchQueuedPosts_def tryCatch_def andThen_def js_fetch_def ret_def backend_def)
  show ?thesis
    using f processQueue_empty_queue_no_effects [OF f] by simp
qed

section \<open>Message listener\<close>

lemma processQueue_launch_post:
  "processQueue (backend [launch_post] False) [] =
     Done ()
       [Fetch ''GET'' pending_url (HttpResponse True (PostsField (Some [launch_post]))),
        TabsQuery [''*://x.com/*'', ''*://twitter.com/*'']
          (Some [\<lparr>tab_id = 7, tab_url = ''https://x.com/home''\<rparr>]),
        ExecuteScript 7 AutoPostToX ''Launch day!'' (ExecResults [Some False]),
        SetTimeout 3000]"
proof -
  have f: "fetchQueuedPosts (backend [launch_post] False) [] =
     Done [launch_post]
       [Fetch ''GET'' pending_url (HttpResponse True (PostsField (Some [launch_post])))]"
    by (simp add: fetchQueuedPosts_def tryCatch_def andThen_def js_fetch_def ret_def backend_def)
  have p: "postToTwitter (backend [launch_post] False) launch_post
       [Fetch ''GET'' pending_url (HttpResponse True (PostsField (Some [launch_post])))] =
     Done False
       [TabsQuery [''*://x.com/*'', ''*://twitter.com/*'']
          (Some [\<lparr>tab_id = 7, tab_url = ''https://x.com/home''\<rparr>]),
        ExecuteScript 7 AutoPostToX ''Launch day!'' (ExecResults [Some False])]"
    by (simp add: postToTwitter_def postVia_def newPromiseAsync_def andThen_def tryCatch_def
        chrome_tabs_query_def executeScript_def ret_def backend_def launch_post_def)
  have s: "\<not> scheduledForFuture (backend [launch_post] False)
       [Fetch ''GET'' pending_url (HttpResponse True (PostsField (Some [launch_post])))] launch_post"
    by (simp add: scheduledForFuture_def launch_post_def)
  have x: "platform launch_post = ''x''"
    by (simp add: launch_post_def)
  show ?thesis
    using f p s x
    by (simp add: processQueue_def processPost_def postByPlatform_def andThen_def ret_def
        setTimeout_def emit_def)
qed

text \<open>
  C9. The answer to \<open>PROCESS_NOW\<close> is \<open>{success: true}\<close> whenever \<open>processQueue\<close>
  resolves, whatever the pass did: in particular when the queue fetch failed. (When the
  pass rejects, the answer is \<open>{success: false}\<close> with the error message.)
\<close>

theorem process_now_success_means_pass_completed:
  "(processQueue env h = Done u d \<longrightarrow>
      onMessage env ''PROCESS_NOW'' h = Done () (d @ [SendResponse (ProcessReply True None)]))
 \<and> (processQueue env h = Threw m d \<longrightarrow>
      onMessage env ''PROCESS_NOW'' h =
        Done () (d @ [SendResponse (ProcessReply False (Some m))]))
 \<and> (fetch env h ''GET'' pending_url = NetworkFailure \<longrightarrow>
      onMessage env ''PROCESS_NOW'' h =
        Done () [Fetch ''GET'' pending_url NetworkFailure,
                 SendResponse (ProcessReply True None)])"
  by (simp add: onMessage_def processQueue_def fetchQueuedPosts_def tryCatch_def andThen_def
      js_fetch_def ret_def)

theorem process_now_success_means_pass_completed_witness:
  "poster_results (effects (processQueue (backend [launch_post] False) [])) = [False]
   \<and> post_requests (effects (processQueue (backend [launch_post] False) [])) = []
   \<and> sent_response (effects (onMessage (backend [launch_post] False) ''PROCESS_NOW'' []))
       = Some (ProcessReply True None)
   \<and> fetch offline [] ''GET'' pending_url = NetworkFailure
   \<and> onMessage offline ''PROCESS_NOW'' [] =
       Done () [Fetch ''GET'' pending_url NetworkFailure, SendResponse (ProcessReply True None)]"
proof -
  have n: "fetch offline [] ''GET'' pending_url = NetworkFailure"
    by (simp add: offline_def backend_def)
  show ?thesis
    using n
      process_now_success_means_pass_completed [of "backend [launch_post] False" "[]" "()"
        "effects (processQueue (backend [launch_post] False) [])"]
      process_now_success_means_pass_completed [of offline "[]"]
    by (simp add: processQueue_launch_post)
qed

section \<open>Popup\<close>

lemma loadQueue_callback_keeps_counter:
  "postedToday (loadQueue_callback s status) = postedToday s"
  by (simp add: loadQueue_callback_def renderPosts_def split: option.splits reply_msg.splits)

text \<open>
  C7. When the answer to the post-now message reports success, the popup stores the old
  daily-posted counter (0 if never written) plus the number of posts it displays. That
  holds whenever the pass of the worker resolved, whatever the pass published; and
  reloading the queue afterwards leaves the stored counter as it is.
\<close>

theorem posted_counter_grows_by_displayed_queue:
  "(succeeded response \<longrightarrow>
      postedToday (postAllNow_callback s response) = Some (storedCount s + length (posts s)))
 \<and> (processQueue env h = Done u d \<longrightarrow>
      postedToday (postAllNow env h s) = Some (storedCount s + length (posts s)))
 \<and> postedToday (postAllNow_timer (postAllNow_callback s response) response status) =
      postedToday (postAllNow_callback s response)"
proof (intro conjI impI)
  assume "succeeded response"
  then show "postedToday (postAllNow_callback s response) = Some (storedCount s + length (posts s))"
    by (simp add: postAllNow_callback_def Let_def)
next
  assume "processQueue env h = Done u d"
  then have "sent_response (effects (onMessage env ''PROCESS_NOW'' h)) =
      sent_response (d @ [SendResponse (ProcessReply True None)])"
    by (simp add: onMessage_def)
  moreover have "succeeded (sent_response (d @ [SendResponse (ProcessReply True None)]))"
    using processQueue_no_response [of env h] \<open>processQueue env h = Done u d\<close>
    by (simp add: sent_response_last)
  ultimately show "postedToday (postAllNow env h s) = Some (storedCount s + length (posts s))"
    by (simp add: postAllNow_def postAllNow_callback_def postAllNow_start_def storedCount_def Let_def)
next
  show "postedToday (postAllNow_timer (postAllNow_callback s response) response status) =
      postedToday (postAllNow_callback s response)"
    by (simp add: postAllNow_timer_def loadQueue_callback_keeps_counter)
qed

theorem posted_counter_grows_by_displayed_queue_witness:
  "post_requests (effects (processQueue (backend [launch_post] False) [])) = []
   \<and> postedToday
       (postAllNow (backend [launch_post] False) []
          \<lparr>posts = [launch_post, later_post], postedToday = Some 3, queuedCount = 2,
           postedCount = 3, postNowBtn_label = PostAllNow, postNowBtn_disabled = False\<rparr>)
       = Some 5"
  using posted_counter_grows_by_displayed_queue
    [of "Some (ProcessReply True None)"
      "\<lparr>posts = [launch_post, later_post], postedToday = Some 3, queuedCount = 2,
        postedCount = 3, postNowBtn_label = PostAllNow, postNowBtn_disabled = False\<rparr>"
      "backend [launch_post] False" "[]" "()"
      "effects (processQueue (backend [launch_post] False) [])"]
  by (simp add: processQueue_launch_post storedCount_def)

section \<open>Selector polling\<close>

lemma waitLoop_spec:
  "\<exists>r d. waitLoop pg selector timeout start h = Done r d
     \<and> list_all (\<lambda>e. \<exists>x. e = Slept 100 x) d
     \<and> (\<forall>k<length d. query pg (h @ take k d) selector = None
            \<and> Date_now pg (h @ take k d) - start < timeout)
     \<and> (case r of
          Some element \<Rightarrow> query pg (h @ d) selector = Some element
                          \<and> Date_now pg (h @ d) - start < timeout
        | None \<Rightarrow> timeout \<le> Date_now pg (h @ d) - start)"
proof (induction pg selector timeout start h rule: waitLoop.induct)
  case (1 pg selector timeout start h)
  show ?case
  proof (cases "Date_now pg h - start < timeout")
    case False
    then show ?thesis by (simp add: waitLoop.simps)
  next
    case inside: True
    show ?thesis
    proof (cases "query pg h selector")
      case (Some element)
      with inside show ?thesis by (simp add: waitLoop.simps)
    next
      case None
      let ?s = "Slept 100 (timer_extra pg h 100)"
      from "1.IH" [OF inside None] obtain r d where
        run: "waitLoop pg selector timeout start (h @ [?s]) = Done r d"
        and polls: "list_all (\<lambda>e. \<exists>x. e = Slept 100 x) d"
        and before: "\<forall>k<length d. query pg ((h @ [?s]) @ take k d) selector = None
            \<and> Date_now pg ((h @ [?s]) @ take k d) - start < timeout"
        and final: "(case r of
          Some element \<Rightarrow> query pg ((h @ [?s]) @ d) selector = Some element
                          \<and> Date_now pg ((h @ [?s]) @ d) - start < timeout
        | None \<Rightarrow> timeout \<le> Date_now pg ((h @ [?s]) @ d) - start)"
        by blast
      have eq: "waitLoop pg selector timeout start h = Done r (?s # d)"
        using inside None run by (simp add: waitLoop.simps [of pg selector timeout start h])
      have "\<forall>k<length (?s # d). query pg (h @ take k (?s # d)) selector = None
            \<and> Date_now pg (h @ take k (?s # d)) - start < timeout"
      proof (intro allI impI)
        fix k assume "k < length (?s # d)"
        then show "query pg (h @ take k (?s # d)) selector = None
            \<and> Date_now pg (h @ take k (?s # d)) - start < timeout"
          using before inside None by (cases k) simp_all
      qed
      then show ?thesis
        using eq polls final by (simp split: option.splits)
    qed
  qed
qed

lemma polls_take_time:
  "list_all (\<lambda>e. \<exists>x. e = Slept 100 x) d \<Longrightarrow> 100 * length d \<le> elapsed d"
  by (induction d) (auto simp add: elapsed_def)

lemma slow_page_wait:
  "waitForElement slow_page selector 300 [] = Done None [Slept 100 0, Slept 100 0, Slept 100 0]"
  "waitForElement slow_page selector 5000 [] =
     Done (Some 1) [Slept 100 0, Slept 100 0, Slept 100 0]"
  by (simp_all add: waitLoop.simps waitForElement_def Date_now_def elapsed_def slow_page_def
      static_page_def)

text \<open>
  C6, as stated, fails: on a page where an element matching the selector appears 250 ms
  after the call and stays, \<open>waitForElement\<close> with a timeout of 300 ms polls at 0, 100
  and 200 ms, sleeps until 300 ms and resolves with null, although the element appeared
  before the timeout elapsed.
\<close>

theorem waitForElement_misses_element_after_last_poll:
  "query slow_page [Slept 250 0] ''.ql-editor'' = Some 1
   \<and> Date_now slow_page [Slept 250 0] - Date_now slow_page [] < 300
   \<and> query slow_page [Slept 100 0, Slept 100 0, Slept 100 0] ''.ql-editor'' = Some 1
   \<and> waitForElement slow_page ''.ql-editor'' 300 [] =
       Done None [Slept 100 0, Slept 100 0, Slept 100 0]"
  by (simp add: slow_page_wait) (simp add: slow_page_def static_page_def elapsed_def Date_now_def)

text \<open>
  C6, amended. \<open>waitForElement\<close> is total and always resolves, for every page, selector
  and timeout. All it does is sleep 100 ms between polls, and it polls at most once per
  100 ms of the timeout. Every poll but the last finds nothing and is made before the
  timeout has elapsed. It resolves with an element exactly when the last poll, made
  before the timeout has elapsed, finds that element (the first one any poll finds), and
  with null exactly when the timeout has elapsed at a loop check, every poll having found
  nothing. An element that appears after the last poll is not returned.
\<close>

theorem waitForElement_terminates_with_first_polled_match:
  "\<exists>r d. waitForElement pg selector timeout h = Done r d
     \<and> list_all (\<lambda>e. \<exists>x. e = Slept 100 x) d
     \<and> 100 * int (length d) < max timeout 0 + 100
     \<and> (\<forall>k<length d. query pg (h @ take k d) selector = None
            \<and> Date_now pg (h @ take k d) - Date_now pg h < timeout)
     \<and> (case r of
          Some element \<Rightarrow> query pg (h @ d) selector = Some element
                          \<and> Date_now pg (h @ d) - Date_now pg h < timeout
        | None \<Rightarrow> timeout \<le> Date_now pg (h @ d) - Date_now pg h)"
proof -
  from waitLoop_spec [of pg selector timeout "Date_now pg h" h] obtain r d where
    run: "waitLoop pg selector timeout (Date_now pg h) h = Done r d"
    and polls: "list_all (\<lambda>e. \<exists>x. e = Slept 100 x) d"
    and before: "\<forall>k<length d. query pg (h @ take k d) selector = None
            \<and> Date_now pg (h @ take k d) - Date_now pg h < timeout"
    and final: "(case r of
          Some element \<Rightarrow> query pg (h @ d) selector = Some element
                          \<and> Date_now pg (h @ d) - Date_now pg h < timeout
        | None \<Rightarrow> timeout \<le> Date_now pg (h @ d) - Date_now pg h)"
    by blast
  have bound: "100 * int (length d) < max timeout 0 + 100"
  proof (cases d)
    case Nil
    then show ?thesis by simp
  next
    case (Cons e es)
    then have "length es < length d" by simp
    with before have "Date_now pg (h @ take (length es) d) - Date_now pg h < timeout"
      by blast
    moreover have "list_all (\<lambda>e. \<exists>x. e = Slept 100 x) (take (length es) d)"
      using polls by (simp add: list_all_iff) (meson in_set_takeD)
    then have "100 * length (take (length es) d) \<le> elapsed (take (length es) d)"
      by (rule polls_take_time)
    ultimately show ?thesis
      using Cons by (simp add: Date_now_def elapsed_def)
  qed
  show ?thesis
    using run polls before final bound by (simp add: waitForElement_def)
qed

theorem waitForElement_terminates_with_first_polled_match_witness:
  "waitForElement slow_page ''.ql-editor'' 5000 [] =
     Done (Some 1) [Slept 100 0, Slept 100 0, Slept 100 0]
   \<and> query slow_page [] ''.ql-editor'' = None
   \<and> query slow_page [Slept 100 0] ''.ql-editor'' = None
   \<and> query slow_page [Slept 100 0, Slept 100 0] ''.ql-editor'' = None
   \<and> query slow_page [Slept 100 0, Slept 100 0, Slept 100 0] ''.ql-editor'' = Some 1"
  using waitForElement_terminates_with_first_polled_match [of slow_page "''.ql-editor''" 5000 "[]"]
  by (simp add: slow_page_wait) (simp add: slow_page_def static_page_def elapsed_def)

section \<open>Posters in the page\<close>



lemma firstMatch_Some:
  "firstMatch pg h sels = Some (s, n) \<Longrightarrow> s \<in> set sels"
  by (induction sels) (auto split: option.splits)






lemma autoPostToX_without_buttons:
  \<open>autoPostToX x_compose_no_buttons ''Launch day!'' [] =
     Done False
       [Focus ''[data-testid="tweetTextarea_0"]'' 1, Slept 300 0,
        ExecInsertText (Some ''Launch day!''), Slept 500 0]\<close>
  by (simp add: autoPostToX_def tryCatch_def andThen_def x_compose_no_buttons_def static_page_def
      locationHref_def querySelector_def querySelectorAny_def isDisabled_def ret_def act_def
      sleep_def)


lemma postToX_without_buttons:
  "returned (postToX x_compose_no_buttons launch_post []) = Some True
   \<and> clicked (effects (postToX x_compose_no_buttons launch_post [])) = []"
  by (simp add: waitLoop.simps postToX_def tryCatch_def andThen_def waitForElement_def
      Date_now_def elapsed_def x_compose_no_buttons_def static_page_def launch_post_def
      locationHref_def ret_def act_def getTextContent_def sleep_def)


text \<open>
  The injected posters resolve with true only after the click on a submit control that a
  query for the submit selectors located and found enabled.
\<close>

lemma andThen_DoneE:
  assumes "andThen m f h = Done b d"
  obtains a d1 d2 where "m h = Done a d1" and "f a (h @ d1) = Done b d2" and "d = d1 @ d2"
proof (cases "m h")
  case (Done a d1)
  with assms obtain d2 where "f a (h @ d1) = Done b d2" and "d = d1 @ d2"
    by (cases "f a (h @ d1)") (simp_all add: andThen_def)
  with Done that show ?thesis by blast
qed (use assms in \<open>simp_all add: andThen_def\<close>)

lemma tryCatch_False_Done:
  assumes "tryCatch m (\<lambda>e. ret False) h = Done True d"
  shows "m h = Done True d"
  using assms by (cases "m h") (simp_all add: tryCatch_def ret_def)

lemma act_Done: "act pg e h = Done u d \<Longrightarrow> d = [e]"
  by (simp add: act_def split: if_splits)

lemma click_later:
  assumes "andThen m f h = Done True d"
    and "\<And>a d1 d2. m h = Done a d1 \<Longrightarrow> f a (h @ d1) = Done True d2
           \<Longrightarrow> \<exists>s n. s \<in> S \<and> Click s n \<in> set d2"
  shows "\<exists>s n. s \<in> S \<and> Click s n \<in> set d"
proof -
  from assms(1) obtain a d1 d2 where "m h = Done a d1" "f a (h @ d1) = Done True d2" "d = d1 @ d2"
    by (rule andThen_DoneE)
  with assms(2) show ?thesis by fastforce
qed

lemma click_now:
  assumes "andThen (act pg (Click s n)) f h = Done b d" and "s \<in> S"
  shows "\<exists>s n. s \<in> S \<and> Click s n \<in> set d"
proof -
  from assms(1) obtain a d1 d2 where "act pg (Click s n) h = Done a d1" "d = d1 @ d2"
    by (rule andThen_DoneE)
  then have "Click s n \<in> set d" by (auto dest: act_Done)
  with assms(2) show ?thesis by blast
qed

lemma submit_tail:
  assumes "(if \<not> off then
              andThen (sleep pg a) (\<lambda>_.
              andThen (act pg (Click s n)) (\<lambda>_.
              andThen (sleep pg b) (\<lambda>_. ret True)))
            else ret False) h = Done True d"
    and "s \<in> S"
  shows "\<exists>s n. s \<in> S \<and> Click s n \<in> set d"
proof (cases off)
  case True
  with assms(1) show ?thesis by (simp add: ret_def)
next
  case False
  with assms(1) have "andThen (sleep pg a) (\<lambda>_.
              andThen (act pg (Click s n)) (\<lambda>_.
              andThen (sleep pg b) (\<lambda>_. ret True))) h = Done True d" by simp
  then show ?thesis
    by (rule click_later) (rule click_now [OF _ assms(2)])
qed

lemma submit_found:
  assumes "andThen (querySelectorAny pg sels)
             (\<lambda>postBtn. case postBtn of
                None \<Rightarrow> ret False
              | Some (s', btn) \<Rightarrow>
                  andThen (isDisabled pg btn) (\<lambda>off.
                  if \<not> off then
                    andThen (sleep pg a) (\<lambda>_.
                    andThen (act pg (Click s' btn)) (\<lambda>_.
                    andThen (sleep pg b) (\<lambda>_. ret True)))
                  else ret False)) h = Done True d"
  shows "\<exists>s n. s \<in> set sels \<and> Click s n \<in> set d"
  using assms
proof (rule click_later)
  fix r d1 d2
  assume q: "querySelectorAny pg sels h = Done r d1"
    and rest: "(case r of
                None \<Rightarrow> ret False
              | Some (s', btn) \<Rightarrow>
                  andThen (isDisabled pg btn) (\<lambda>off.
                  if \<not> off then
                    andThen (sleep pg a) (\<lambda>_.
                    andThen (act pg (Click s' btn)) (\<lambda>_.
                    andThen (sleep pg b) (\<lambda>_. ret True)))
                  else ret False)) (h @ d1) = Done True d2"
  show "\<exists>s n. s \<in> set sels \<and> Click s n \<in> set d2"
  proof (cases r)
    case None
    with rest show ?thesis by (simp add: ret_def)
  next
    case (Some sb)
    obtain s' btn where sb: "sb = (s', btn)" by (cases sb)
    from q Some sb have "firstMatch pg h sels = Some (s', btn)"
      by (simp add: querySelectorAny_def)
    then have mem: "s' \<in> set sels" by (rule firstMatch_Some)
    from rest Some sb have "andThen (isDisabled pg btn) (\<lambda>off.
                  if \<not> off then
                    andThen (sleep pg a) (\<lambda>_.
                    andThen (act pg (Click s' btn)) (\<lambda>_.
                    andThen (sleep pg b) (\<lambda>_. ret True)))
                  else ret False) (h @ d1) = Done True d2" by simp
    then show ?thesis
      by (rule click_later) (rule submit_tail [OF _ mem])
  qed
qed

lemma found_or_false:
  assumes "(case r of None \<Rightarrow> ret False | Some (s, n) \<Rightarrow> K s n) h = Done True d"
  obtains s n where "r = Some (s, n)" and "K s n h = Done True d"
  using assms by (cases r) (auto simp add: ret_def)

lemma autoPostToX_true_only_after_submit_click:
  assumes "autoPostToX pg text h = Done True d"
  shows \<open>\<exists>s n. s \<in> set [''[data-testid="tweetButton"]'', ''[data-testid="tweetButtonInline"]'']
           \<and> Click s n \<in> set d\<close>
  using tryCatch_False_Done [OF assms [unfolded autoPostToX_def]]
  apply (rule click_later)
  apply (erule click_later)
  apply (erule click_later)
  apply (erule found_or_false)
  apply (erule click_later)
  apply (erule click_later)
  apply (erule click_later)
  apply (erule click_later)
  apply (erule submit_found)
  done

lemma autoPostToLinkedIn_true_only_after_submit_click:
  assumes "autoPostToLinkedIn pg text h = Done True d"
  shows \<open>\<exists>s n. s \<in> set [''.share-actions__primary-action'', ''[data-control-name="share.post"]'',
                  ''button.share-box-feed-entry__closed-share-box btn'']
           \<and> Click s n \<in> set d\<close>
  using tryCatch_False_Done [OF assms [unfolded autoPostToLinkedIn_def]]
  apply (rule click_later)
  apply (erule click_later)
  apply (erule click_later)
  apply (erule found_or_false)
  apply (erule click_later)
  apply (erule click_later)
  apply (erule click_later)
  apply (erule click_later)
  apply (erule click_later)
  apply (erule submit_found)
  done

text \<open>
  C4 fails on the content scripts. On the compose page of X with the text box present
  and no submit button, \<open>postToX\<close> of the content script, given a post without
  \<open>scheduled_time\<close>, waits for the button, finds none, clicks nothing and still resolves
  with true. On the same page the injected \<open>autoPostToX\<close> resolves with false.
\<close>

theorem postToX_true_without_submit_control:
  \<open>query x_compose_no_buttons [] ''[data-testid="tweetButton"]'' = None
   \<and> scheduled_time launch_post = None
   \<and> returned (postToX x_compose_no_buttons launch_post []) = Some True
   \<and> clicked (effects (postToX x_compose_no_buttons launch_post [])) = []
   \<and> returned (autoPostToX x_compose_no_buttons ''Launch day!'' []) = Some False\<close>
  using postToX_without_buttons
  by (simp add: autoPostToX_without_buttons)
    (simp add: x_compose_no_buttons_def static_page_def launch_post_def)






lemma postToLinkedIn_content_on_feed:
  \<open>postToLinkedIn_content linkedin_feed later_post [] =
     Done True
       [Click ''.share-box-feed-entry__trigger'' 1, Slept 1000 0,
        Focus ''.ql-editor'' 2, SetInnerHTML ''.ql-editor'' 2 [],
        SetInnerHTML ''.ql-editor'' 2 ''<p>See you tomorrow</p>'',
        DispatchEvent ''.ql-editor'' 2 ''input'', Slept 500 0,
        Click ''[data-control-name="schedule_post"]'' 3, Slept 500 0,
        SetValue ''input[type="date"]'' 4 ''1970-01-01'',
        SetValue ''input[type="time"]'' 5 ''00:00'',
        DispatchEvent ''input[type="date"]'' 4 ''change'',
        DispatchEvent ''input[type="time"]'' 5 ''change'',
        Click ''[data-control-name="schedule_confirm"]'' 6]\<close>
  by (simp add: waitLoop.simps postToLinkedIn_content_def fillSchedule_def tryCatch_def
      andThen_def waitForElement_def Date_now_def elapsed_def linkedin_feed_def static_page_def
      later_post_def querySelector_def querySelectorAny_def ret_def act_def sleep_def
      replaceNewlines_def)




end
